theory Spec2Isabelle
  imports Complex_Main
begin

section \<open>Lovetown: one haptic action per call, stopped by a timer\<close>

text \<open>
  The repository has two entry points installed on \<^verbatim>\<open>window\<close>:
  \<^verbatim>\<open>lovetownConnect\<close> (with its positional wrapper \<^verbatim>\<open>lovetownSend\<close>) and
  \<^verbatim>\<open>lovetownRuntime\<close>. Both are asynchronous functions: a synchronous prefix parses
  the address, registers listeners on a fresh client and calls \<^verbatim>\<open>client.connect\<close>;
  everything after that runs in callbacks that the host's event loop invokes.

  The embedding is a deterministic step function on a session state. The host and the
  client library are the environment: they deliver events (the connection settled, a
  device was announced, an awaited command settled, time passed, a timer came due, a link
  was clicked), and the code answers each event by running the piece of source that the
  event resumes. Every call the code makes to the outside is appended to a time-stamped
  trace.
\<close>

subsection \<open>Values and options\<close>

text \<open>
  A JavaScript \<^verbatim>\<open>number\<close>. The code never computes with numbers: it tests them for
  truthiness and hands them on, so a number is a real, \<^verbatim>\<open>NaN\<close> or one of the two
  infinities.
\<close>

datatype number = Num real | NaN | Infinity | NegInfinity

text \<open>\<^verbatim>\<open>vibrate?: number | number[]\<close> and \<^verbatim>\<open>linear?: number | [number, number][]\<close>.\<close>

datatype vibrate_arg = VNumber number | VArray "number list"

datatype linear_arg = LNumber number | LArray "(number \<times> number) list"

text \<open>
  \<^verbatim>\<open>interface LovetownOptions\<close>. An optional field that is missing (or
  \<^verbatim>\<open>undefined\<close>) is \<open>None\<close>. The field \<^verbatim>\<open>linear\<close> is \<open>linear_opt\<close> here.
\<close>

record LovetownOptions =
  connectAddress :: string
  timeout :: number
  vibrate :: "vibrate_arg option"
  linear_opt :: "linear_arg option"
  linearDuration :: "number option"

text \<open>
  What the code reads of a \<^verbatim>\<open>ButtplugClientDevice\<close>: the two attribute arrays (only
  their lengths are inspected) and, to tell devices apart, the device index.
\<close>

record ButtplugClientDevice =
  deviceIndex :: nat
  vibrateAttributes :: "nat list"
  linearAttributes :: "nat list"

subsection \<open>Truthiness\<close>

text \<open>
  \<^verbatim>\<open>if (cxt.vibrate)\<close> and \<^verbatim>\<open>cxt.linear && cxt.linearDuration\<close> are truthiness
  tests: \<^verbatim>\<open>undefined\<close>, \<^verbatim>\<open>0\<close> and \<^verbatim>\<open>NaN\<close> are falsy, every other number and
  every array is truthy.
\<close>

fun truthy_number :: "number \<Rightarrow> bool" where
  "truthy_number (Num r) = (r \<noteq> 0)"
| "truthy_number NaN = False"
| "truthy_number Infinity = True"
| "truthy_number NegInfinity = True"

fun truthy_vibrate :: "vibrate_arg \<Rightarrow> bool" where
  "truthy_vibrate (VNumber n) = truthy_number n"
| "truthy_vibrate (VArray ns) = True"

fun truthy_linear :: "linear_arg \<Rightarrow> bool" where
  "truthy_linear (LNumber n) = truthy_number n"
| "truthy_linear (LArray ps) = True"

text \<open>The value of an optional field when it is truthy.\<close>

fun truthy :: "('a \<Rightarrow> bool) \<Rightarrow> 'a option \<Rightarrow> 'a option" where
  "truthy t None = None"
| "truthy t (Some v) = (if t v then Some v else None)"

subsection \<open>Calls to the outside\<close>

datatype console_arg = LogError string | LogText string

datatype action =
    NewConnector string
  | Connect
  | StartScanning
  | StopScanning
  | Vibrate ButtplugClientDevice vibrate_arg
  | Linear ButtplugClientDevice linear_arg number
  | SetTimeout ButtplugClientDevice number
  | Stop ButtplugClientDevice
  | ConsoleLog console_arg

subsection \<open>Session state and events\<close>

text \<open>
  \<open>Connecting\<close>: \<^verbatim>\<open>await client.connect(connector)\<close> is pending. \<open>Connected\<close>: it
  resolved and \<^verbatim>\<open>client.startScanning()\<close> was called. \<open>Closed\<close>: it rejected, the
  \<^verbatim>\<open>catch\<close> block logged and returned. \<open>Idle\<close>: nothing has run yet.
\<close>

datatype phase = Idle | Connecting | Connected | Closed

text \<open>
  A listener invocation that is suspended at an \<^verbatim>\<open>await\<close> with code left to run:
  \<open>AwaitAction\<close> is the \<^verbatim>\<open>deviceadded\<close> listener of \<^verbatim>\<open>lovetownConnect\<close> at
  \<^verbatim>\<open>await device.vibrate(...)\<close> or \<^verbatim>\<open>await device.linear(...)\<close>;
  \<open>AwaitClickVibrate\<close> is the click listener of \<^verbatim>\<open>lovetownRuntime\<close> at
  \<^verbatim>\<open>await device.vibrate(1.0)\<close>. The awaits of \<^verbatim>\<open>client.stopScanning()\<close>,
  \<^verbatim>\<open>client.startScanning()\<close> and \<^verbatim>\<open>device.stop()\<close> are each the last statement
  of their function, so nothing is kept for them.
\<close>

datatype task = AwaitAction ButtplugClientDevice | AwaitClickVibrate ButtplugClientDevice

record session =
  now :: real
  phase :: phase
  fresh :: nat
  tasks :: "(nat \<times> task) list"
  timers :: "(nat \<times> real \<times> ButtplugClientDevice) list"
  clicks :: "(nat \<times> ButtplugClientDevice) list"
  trace :: "(real \<times> action) list"

text \<open>
  What the environment does. \<open>DeviceAdded device\<close>: the client emits
  \<^verbatim>\<open>deviceadded\<close>, at any time. \<open>ConnectResolved ds\<close>: the connection is up; \<open>ds\<close> are
  devices the server already knew and the client announces in the same turn, before
  \<^verbatim>\<open>connect\<close> returns.
  \<open>Settle k ok\<close>: the command awaited by task \<open>k\<close> resolved (\<open>ok\<close>) or rejected.
  \<open>TimerFire i\<close>: the host runs the callback of timer \<open>i\<close>. \<open>Click l\<close>: the user clicks
  anchor \<open>l\<close>.
\<close>

datatype event =
    Elapse real
  | ConnectResolved "ButtplugClientDevice list"
  | ConnectRejected string
  | DeviceAdded ButtplugClientDevice
  | ScanningFinished
  | Settle nat bool
  | TimerFire nat
  | Click nat

text \<open>
  The listeners a client carries are those of the entry point that made it:
  \<open>OnConnect cxt\<close> are the closures of \<^verbatim>\<open>lovetownConnect(cxt)\<close>, \<open>OnRuntime links\<close>
  those of \<^verbatim>\<open>lovetownRuntime\<close>, where \<open>links\<close> is what
  \<^verbatim>\<open>document.querySelectorAll("a.linkOn")\<close> returns.
\<close>

datatype program = OnConnect LovetownOptions | OnRuntime "nat list"

text \<open>
  The host: \<^verbatim>\<open>new URL(s)\<close> either throws a \<^verbatim>\<open>TypeError\<close> (\<open>None\<close>) or yields a URL,
  of which the code only takes \<^verbatim>\<open>toString()\<close> (the string returned here); and the
  anchors of class \<^verbatim>\<open>linkOn\<close> in the document.
\<close>

record host =
  URL :: "string \<Rightarrow> string option"
  linkOn :: "nat list"

datatype error = TypeError

subsection \<open>Primitive effects\<close>

definition idle :: session where
  "idle = \<lparr>now = 0, phase = Idle, fresh = 0, tasks = [], timers = [], clicks = [], trace = []\<rparr>"

definition emit :: "action \<Rightarrow> session \<Rightarrow> session" where
  "emit a s = s\<lparr>trace := trace s @ [(now s, a)]\<rparr>"

definition suspend :: "task \<Rightarrow> session \<Rightarrow> session" where
  "suspend t s = s\<lparr>tasks := tasks s @ [(fresh s, t)], fresh := Suc (fresh s)\<rparr>"

definition finish :: "nat \<Rightarrow> session \<Rightarrow> session" where
  "finish k s = s\<lparr>tasks := filter (\<lambda>(j, t). j \<noteq> k) (tasks s)\<rparr>"

text \<open>
  The host's one-shot timer. The host keeps the delay as a signed 32-bit whole number of
  milliseconds: a delay from 0 to 2147483647 is cut to whole milliseconds, and the
  callback is not run before that many have passed; any other delay (negative,
  \<^verbatim>\<open>NaN\<close>, infinite, or beyond 2147483647) is not honoured, and the callback may run
  at once.
\<close>

fun delay_ms :: "number \<Rightarrow> real" where
  "delay_ms (Num r) = (if 0 \<le> r \<and> r \<le> 2147483647 then of_int \<lfloor>r\<rfloor> else 0)"
| "delay_ms NaN = 0"
| "delay_ms Infinity = 0"
| "delay_ms NegInfinity = 0"

text \<open>
  \<^verbatim>\<open>setTimeout(async () => { await device.stop(); }, ms)\<close>: the callback closes over
  \<open>device\<close>. No code of the repository ever clears a timer.
\<close>

definition setTimeout :: "ButtplugClientDevice \<Rightarrow> number \<Rightarrow> session \<Rightarrow> session" where
  "setTimeout device ms s =
     emit (SetTimeout device ms)
       (s\<lparr>timers := timers s @ [(fresh s, now s + delay_ms ms, device)], fresh := Suc (fresh s)\<rparr>)"

definition fire :: "nat \<Rightarrow> session \<Rightarrow> session" where
  "fire i s =
     (case map_of (timers s) i of
        None \<Rightarrow> s
      | Some (due, device) \<Rightarrow>
          if due \<le> now s
          then emit (Stop device) (s\<lparr>timers := filter (\<lambda>(j, x). j \<noteq> i) (timers s)\<rparr>)
          else s)"

subsection \<open>The listeners of lovetownConnect\<close>

text \<open>
  The \<^verbatim>\<open>deviceadded\<close> listener up to its first \<^verbatim>\<open>await\<close>. When a command is sent the
  invocation is suspended on it; otherwise it goes straight to
  \<^verbatim>\<open>await client.stopScanning()\<close>.
\<close>

definition deviceadded :: "LovetownOptions \<Rightarrow> ButtplugClientDevice \<Rightarrow> session \<Rightarrow> session" where
  "deviceadded cxt device s =
     (case truthy truthy_vibrate (vibrate cxt) of
        Some v \<Rightarrow>
          if length (vibrateAttributes device) > 0
          then suspend (AwaitAction device) (emit (Vibrate device v) s)
          else emit StopScanning s
      | None \<Rightarrow>
          (case (truthy truthy_linear (linear_opt cxt), truthy truthy_number (linearDuration cxt)) of
             (Some l, Some d) \<Rightarrow>
               if length (linearAttributes device) > 0
               then suspend (AwaitAction device) (emit (Linear device l d) s)
               else emit StopScanning s
           | _ \<Rightarrow> emit StopScanning s))"

text \<open>
  The rest of the listener once the awaited command settled. If it resolved: arm the stop
  timer, then ask the server to stop scanning. If it rejected, the \<^verbatim>\<open>await\<close> throws;
  the listener has no \<^verbatim>\<open>try\<close>, so the invocation ends there.
\<close>

definition action_settled :: "LovetownOptions \<Rightarrow> nat \<Rightarrow> ButtplugClientDevice \<Rightarrow> bool \<Rightarrow> session \<Rightarrow> session" where
  "action_settled cxt k device ok s =
     (if ok then emit StopScanning (setTimeout device (timeout cxt) (finish k s))
      else finish k s)"

subsection \<open>The listeners of lovetownRuntime\<close>

text \<open>
  The \<^verbatim>\<open>deviceadded\<close> listener: for a device that vibrates, one click listener per
  anchor; then \<^verbatim>\<open>await client.stopScanning()\<close>.
\<close>

definition deviceadded_runtime :: "nat list \<Rightarrow> ButtplugClientDevice \<Rightarrow> session \<Rightarrow> session" where
  "deviceadded_runtime links device s =
     emit StopScanning
       (if length (vibrateAttributes device) > 0
        then s\<lparr>clicks := clicks s @ map (\<lambda>l. (l, device)) links\<rparr>
        else s)"

text \<open>A click runs the listeners on that anchor in the order they were added.\<close>

fun clicked :: "ButtplugClientDevice list \<Rightarrow> session \<Rightarrow> session" where
  "clicked [] s = s"
| "clicked (device # ds) s =
     clicked ds (suspend (AwaitClickVibrate device) (emit (Vibrate device (VNumber (Num 1))) s))"

definition click_settled :: "nat \<Rightarrow> ButtplugClientDevice \<Rightarrow> bool \<Rightarrow> session \<Rightarrow> session" where
  "click_settled k device ok s =
     (if ok then setTimeout device (Num 3000) (finish k s) else finish k s)"

subsection \<open>The event loop\<close>

definition on_deviceadded :: "program \<Rightarrow> ButtplugClientDevice \<Rightarrow> session \<Rightarrow> session" where
  "on_deviceadded p device s =
     (case p of
        OnConnect cxt \<Rightarrow> deviceadded cxt device s
      | OnRuntime links \<Rightarrow> deviceadded_runtime links device s)"

fun announce :: "program \<Rightarrow> ButtplugClientDevice list \<Rightarrow> session \<Rightarrow> session" where
  "announce p [] s = s"
| "announce p (device # ds) s = announce p ds (on_deviceadded p device s)"

text \<open>Only \<^verbatim>\<open>lovetownRuntime\<close> adds click listeners.\<close>

definition on_click :: "program \<Rightarrow> nat \<Rightarrow> session \<Rightarrow> session" where
  "on_click p l s =
     (case p of
        OnConnect cxt \<Rightarrow> s
      | OnRuntime links \<Rightarrow> clicked (map snd (filter (\<lambda>(l', device). l' = l) (clicks s))) s)"

definition on_settle :: "program \<Rightarrow> nat \<Rightarrow> bool \<Rightarrow> session \<Rightarrow> session" where
  "on_settle p k ok s =
     (case (p, map_of (tasks s) k) of
        (OnConnect cxt, Some (AwaitAction device)) \<Rightarrow> action_settled cxt k device ok s
      | (OnRuntime links, Some (AwaitClickVibrate device)) \<Rightarrow> click_settled k device ok s
      | _ \<Rightarrow> s)"

text \<open>
  One turn of the event loop. The two listeners are registered before
  \<^verbatim>\<open>client.connect\<close> is called and test no connection state, so they run whenever the
  client emits their event. An event that cannot occur in the current state leaves it
  unchanged: the connection settles once, a task settles once, and a timer runs once and
  not before it is due.
\<close>

fun step :: "program \<Rightarrow> session \<Rightarrow> event \<Rightarrow> session" where
  "step p s (Elapse d) = (if 0 \<le> d then s\<lparr>now := now s + d\<rparr> else s)"
| "step p s (ConnectResolved ds) =
     (if phase s = Connecting
      then emit StartScanning (announce p ds (s\<lparr>phase := Connected\<rparr>))
      else s)"
| "step p s (ConnectRejected e) =
     (if phase s = Connecting
      then (emit (ConsoleLog (LogError e)) s)\<lparr>phase := Closed\<rparr>
      else s)"
| "step p s (DeviceAdded device) = on_deviceadded p device s"
| "step p s ScanningFinished = emit (ConsoleLog (LogText ''Scanning Finished'')) s"
| "step p s (Settle k ok) = on_settle p k ok s"
| "step p s (TimerFire i) = fire i s"
| "step p s (Click l) = on_click p l s"

definition run :: "program \<Rightarrow> session \<Rightarrow> event list \<Rightarrow> session" where
  "run p s es = foldl (step p) s es"

subsection \<open>The entry points\<close>

text \<open>
  The \<^verbatim>\<open>try\<close> block up to the \<^verbatim>\<open>await\<close>: the connector is made from the parsed
  address and \<^verbatim>\<open>client.connect\<close> is called.
\<close>

definition connect_to :: "string \<Rightarrow> session \<Rightarrow> session" where
  "connect_to address s = (emit Connect (emit (NewConnector address) s))\<lparr>phase := Connecting\<rparr>"

text \<open>
  \<^verbatim>\<open>lovetownConnect(cxt)\<close> under the event schedule \<open>es\<close>. \<^verbatim>\<open>new URL\<close> is the first
  statement; when it throws, the promise rejects with nothing else done.
\<close>

definition lovetownConnect :: "host \<Rightarrow> LovetownOptions \<Rightarrow> event list \<Rightarrow> error option \<times> session" where
  "lovetownConnect h cxt es =
     (case URL h (connectAddress cxt) of
        None \<Rightarrow> (Some TypeError, idle)
      | Some address \<Rightarrow> (None, run (OnConnect cxt) (connect_to address idle) es))"

text \<open>\<^verbatim>\<open>lovetownSend\<close>: its \<^verbatim>\<open>vibrate\<close> parameter is a plain \<^verbatim>\<open>number\<close>.\<close>

definition lovetownSend ::
  "host \<Rightarrow> string \<Rightarrow> number \<Rightarrow> number option \<Rightarrow> linear_arg option \<Rightarrow> number option \<Rightarrow>
   event list \<Rightarrow> error option \<times> session" where
  "lovetownSend h connectAddress' timeout' vibrate' linear' linearDuration' es =
     lovetownConnect h
       \<lparr>connectAddress = connectAddress', timeout = timeout',
        vibrate = map_option VNumber vibrate', linear_opt = linear',
        linearDuration = linearDuration'\<rparr> es"

definition lovetownRuntime :: "host \<Rightarrow> string \<Rightarrow> event list \<Rightarrow> error option \<times> session" where
  "lovetownRuntime h connectAddress' es =
     (case URL h connectAddress' of
        None \<Rightarrow> (Some TypeError, idle)
      | Some address \<Rightarrow> (None, run (OnRuntime (linkOn h)) (connect_to address idle) es))"

subsection \<open>Reading a trace\<close>

text \<open>The action commands: \<^verbatim>\<open>device.vibrate\<close> and \<^verbatim>\<open>device.linear\<close>.\<close>

fun is_command :: "action \<Rightarrow> bool" where
  "is_command (Vibrate device v) = True"
| "is_command (Linear device l d) = True"
| "is_command a = False"

definition commands :: "(real \<times> action) list \<Rightarrow> action list" where
  "commands tr = filter is_command (map snd tr)"

fun is_vibrate :: "action \<Rightarrow> bool" where
  "is_vibrate (Vibrate device v) = True"
| "is_vibrate a = False"

fun is_linear :: "action \<Rightarrow> bool" where
  "is_linear (Linear device l d) = True"
| "is_linear a = False"

text \<open>The device an action command is sent to.\<close>

fun target :: "action \<Rightarrow> ButtplugClientDevice option" where
  "target (Vibrate device v) = Some device"
| "target (Linear device l d) = Some device"
| "target a = None"

definition commands_to :: "ButtplugClientDevice \<Rightarrow> (real \<times> action) list \<Rightarrow> action list" where
  "commands_to device tr = filter (\<lambda>a. target a = Some device) (map snd tr)"

fun is_log :: "action \<Rightarrow> bool" where
  "is_log (ConsoleLog x) = True"
| "is_log a = False"

definition logs :: "(real \<times> action) list \<Rightarrow> action list" where
  "logs tr = filter is_log (map snd tr)"

fun is_armed :: "action \<Rightarrow> bool" where
  "is_armed (SetTimeout device ms) = True"
| "is_armed a = False"

definition armed :: "(real \<times> action) list \<Rightarrow> action list" where
  "armed tr = filter is_armed (map snd tr)"

fun is_stop :: "action \<Rightarrow> bool" where
  "is_stop (Stop device) = True"
| "is_stop a = False"

definition stops :: "(real \<times> action) list \<Rightarrow> action list" where
  "stops tr = filter is_stop (map snd tr)"

text \<open>
  The requests that go to the control server, which is what an observer of the
  connection sees: everything but the local connector, the timers and the console.
\<close>

fun is_message :: "action \<Rightarrow> bool" where
  "is_message (NewConnector address) = False"
| "is_message (SetTimeout device ms) = False"
| "is_message (ConsoleLog x) = False"
| "is_message a = True"

definition messages :: "(real \<times> action) list \<Rightarrow> action list" where
  "messages tr = filter is_message (map snd tr)"


subsection \<open>Reading a schedule\<close>

text \<open>How many times a schedule has the client announce a device.\<close>

fun announcements :: "event \<Rightarrow> nat" where
  "announcements (ConnectResolved ds) = length ds"
| "announcements (DeviceAdded device) = 1"
| "announcements e = 0"

definition announced :: "event list \<Rightarrow> nat" where
  "announced es = sum_list (map announcements es)"



text \<open>
  The devices a schedule has the client announce to the listener, in order: every
  \<^verbatim>\<open>deviceadded\<close> event, and the devices that come with the resolution of the
  connection while it is pending (\<open>pending\<close>); the connection settles only once.
\<close>

fun delivered :: "bool \<Rightarrow> event list \<Rightarrow> ButtplugClientDevice list" where
  "delivered pending [] = []"
| "delivered pending (DeviceAdded device # es) = device # delivered pending es"
| "delivered pending (ConnectResolved ds # es) = (if pending then ds else []) @ delivered False es"
| "delivered pending (ConnectRejected e # es) = delivered False es"
| "delivered pending (e # es) = delivered pending es"

subsection \<open>What the listeners of lovetownConnect can do\<close>

text \<open>
  The calls that the listeners of \<^verbatim>\<open>lovetownConnect(cxt)\<close> can make, read off the
  conditions that guard them in the source: a vibrate command carries the truthy
  \<^verbatim>\<open>cxt.vibrate\<close> and goes to a device with a vibration actuator; a linear command
  needs \<^verbatim>\<open>cxt.vibrate\<close> falsy, \<^verbatim>\<open>cxt.linear\<close> and \<^verbatim>\<open>cxt.linearDuration\<close> truthy
  and a device with a linear actuator; a timer is set to \<^verbatim>\<open>cxt.timeout\<close>.
\<close>

fun sendable :: "LovetownOptions \<Rightarrow> action \<Rightarrow> bool" where
  "sendable cxt (Vibrate device v) =
     (truthy truthy_vibrate (vibrate cxt) = Some v \<and> vibrateAttributes device \<noteq> [])"
| "sendable cxt (Linear device l d) =
     (truthy truthy_vibrate (vibrate cxt) = None
      \<and> truthy truthy_linear (linear_opt cxt) = Some l
      \<and> truthy truthy_number (linearDuration cxt) = Some d
      \<and> linearAttributes device \<noteq> [])"
| "sendable cxt (SetTimeout device ms) = (ms = timeout cxt)"
| "sendable cxt a = True"

text \<open>
  What the \<^verbatim>\<open>deviceadded\<close> listener of \<^verbatim>\<open>lovetownConnect(cxt)\<close> sends when a device
  is announced, by the guards of the source: the vibrate command if \<^verbatim>\<open>cxt.vibrate\<close> is
  truthy and the device has a vibration actuator; the linear command if \<^verbatim>\<open>cxt.vibrate\<close>
  is falsy, \<^verbatim>\<open>cxt.linear\<close> and \<^verbatim>\<open>cxt.linearDuration\<close> are truthy and the device has a
  linear actuator; nothing otherwise.
\<close>

definition sent :: "LovetownOptions \<Rightarrow> ButtplugClientDevice \<Rightarrow> action list" where
  "sent cxt device =
     (case truthy truthy_vibrate (vibrate cxt) of
        Some v \<Rightarrow> if vibrateAttributes device \<noteq> [] then [Vibrate device v] else []
      | None \<Rightarrow>
          (case (truthy truthy_linear (linear_opt cxt), truthy truthy_number (linearDuration cxt)) of
             (Some l, Some d) \<Rightarrow> if linearAttributes device \<noteq> [] then [Linear device l d] else []
           | _ \<Rightarrow> []))"



subsection \<open>Example data\<close>

text \<open>
  A host whose URL parser accepts the address of a local control server and nothing
  else, and whose document has no anchors; a device with one vibration actuator, one
  with one linear actuator, and one with neither (a gamepad).
\<close>

definition localhost :: host where
  "localhost =
     \<lparr>URL = (\<lambda>s. if s = ''ws://localhost:12345/buttplug'' then Some s else None),
      linkOn = []\<rparr>"

definition vibrator :: "nat \<Rightarrow> ButtplugClientDevice" where
  "vibrator i = \<lparr>deviceIndex = i, vibrateAttributes = [0], linearAttributes = []\<rparr>"

definition stroker :: "nat \<Rightarrow> ButtplugClientDevice" where
  "stroker i = \<lparr>deviceIndex = i, vibrateAttributes = [], linearAttributes = [0]\<rparr>"

definition gamepad :: "nat \<Rightarrow> ButtplugClientDevice" where
  "gamepad i = \<lparr>deviceIndex = i, vibrateAttributes = [], linearAttributes = []\<rparr>"

text \<open>\<^verbatim>\<open>{connectAddress: "ws://localhost:12345/buttplug", timeout: ms, vibrate: v}\<close>\<close>

definition vibrate_request :: "real \<Rightarrow> real \<Rightarrow> LovetownOptions" where
  "vibrate_request v ms =
     \<lparr>connectAddress = ''ws://localhost:12345/buttplug'', timeout = Num ms,
      vibrate = Some (VNumber (Num v)), linear_opt = None, linearDuration = None\<rparr>"

text \<open>
  \<^verbatim>\<open>{connectAddress: "ws://localhost:12345/buttplug", timeout: ms,
  linear: [[0.5, 0], [1.0, 500]], linearDuration: d}\<close>
\<close>

definition linear_request :: "real \<Rightarrow> real \<Rightarrow> LovetownOptions" where
  "linear_request d ms =
     \<lparr>connectAddress = ''ws://localhost:12345/buttplug'', timeout = Num ms, vibrate = None,
      linear_opt = Some (LArray [(Num 0.5, Num 0), (Num 1, Num 500)]),
      linearDuration = Some (Num d)\<rparr>"

section \<open>Properties\<close>

subsection \<open>Basic facts\<close>

lemma emit_simps:
  "now (emit a s) = now s" "phase (emit a s) = phase s" "fresh (emit a s) = fresh s"
  "tasks (emit a s) = tasks s" "timers (emit a s) = timers s" "clicks (emit a s) = clicks s"
  "trace (emit a s) = trace s @ [(now s, a)]"
  by (simp_all add: emit_def)

lemma suspend_simps:
  "now (suspend t s) = now s" "phase (suspend t s) = phase s" "fresh (suspend t s) = Suc (fresh s)"
  "tasks (suspend t s) = tasks s @ [(fresh s, t)]" "timers (suspend t s) = timers s"
  "clicks (suspend t s) = clicks s" "trace (suspend t s) = trace s"
  by (simp_all add: suspend_def)

lemma finish_simps:
  "now (finish k s) = now s" "phase (finish k s) = phase s" "fresh (finish k s) = fresh s"
  "tasks (finish k s) = filter (\<lambda>(j, t). j \<noteq> k) (tasks s)" "timers (finish k s) = timers s"
  "clicks (finish k s) = clicks s" "trace (finish k s) = trace s"
  by (simp_all add: finish_def)

lemma setTimeout_simps:
  "now (setTimeout d ms s) = now s" "phase (setTimeout d ms s) = phase s"
  "fresh (setTimeout d ms s) = Suc (fresh s)" "tasks (setTimeout d ms s) = tasks s"
  "timers (setTimeout d ms s) = timers s @ [(fresh s, now s + delay_ms ms, d)]"
  "clicks (setTimeout d ms s) = clicks s"
  "trace (setTimeout d ms s) = trace s @ [(now s, SetTimeout d ms)]"
  by (simp_all add: setTimeout_def emit_def)

lemmas prim_simps = emit_simps suspend_simps finish_simps setTimeout_simps

lemmas model_defs =
  lovetownConnect_def lovetownRuntime_def lovetownSend_def run_def connect_to_def idle_def
  emit_def suspend_def finish_def setTimeout_def fire_def
  on_deviceadded_def deviceadded_def deviceadded_runtime_def
  on_settle_def action_settled_def click_settled_def on_click_def

lemmas example_defs =
  localhost_def vibrator_def stroker_def gamepad_def vibrate_request_def linear_request_def

lemmas reading_defs =
  commands_def commands_to_def logs_def armed_def stops_def messages_def announced_def

lemma run_Nil: "run p s [] = s"
  by (simp add: run_def)

lemma run_Cons: "run p s (e # es) = run p (step p s e) es"
  by (simp add: run_def)


lemma trace_connect_to: "trace (connect_to a idle) = [(0, NewConnector a), (0, Connect)]"
  by (simp add: connect_to_def idle_def emit_def)

lemma connect_to_simps:
  "phase (connect_to a idle) = Connecting" "tasks (connect_to a idle) = []"
  "timers (connect_to a idle) = []" "now (connect_to a idle) = 0" "fresh (connect_to a idle) = 0"
  by (simp_all add: connect_to_def idle_def emit_def)

lemma phase_deviceadded: "phase (deviceadded cxt device s) = phase s"
  by (simp add: deviceadded_def prim_simps split: option.split)

lemma phase_announce: "phase (announce (OnConnect cxt) ds s) = phase s"
  by (induction ds arbitrary: s) (simp_all add: on_deviceadded_def phase_deviceadded)

lemma phase_fire: "phase (fire i s) = phase s"
  by (simp add: fire_def prim_simps split: option.split)

lemma phase_on_settle: "phase (on_settle (OnConnect cxt) k ok s) = phase s"
  by (simp add: on_settle_def action_settled_def prim_simps split: option.split task.split)

text \<open>The phase only changes when the pending connection settles.\<close>

lemma phase_step:
  "phase (step (OnConnect cxt) s e)
   = (if phase s = Connecting
      then (case e of ConnectResolved ds \<Rightarrow> Connected | ConnectRejected err \<Rightarrow> Closed
            | _ \<Rightarrow> Connecting)
      else phase s)"
  by (cases e)
    (simp_all add: prim_simps phase_announce phase_deviceadded phase_fire phase_on_settle
      on_deviceadded_def on_click_def)

subsection \<open>How many commands a session sends\<close>

lemma commands_append: "commands (tr @ tr') = commands tr @ commands tr'"
  by (simp add: commands_def)

text \<open>One run of the \<^verbatim>\<open>deviceadded\<close> listener sends what its guards allow.\<close>

lemma commands_deviceadded:
  "commands (trace (deviceadded cxt device s)) = commands (trace s) @ sent cxt device"
  by (simp add: deviceadded_def sent_def prim_simps commands_def split: option.split)

lemma commands_announce:
  "commands (trace (announce (OnConnect cxt) ds s))
   = commands (trace s) @ concat (map (sent cxt) ds)"
  by (induction ds arbitrary: s) (simp_all add: on_deviceadded_def commands_deviceadded)

lemma commands_fire: "commands (trace (fire i s)) = commands (trace s)"
  by (simp add: fire_def prim_simps commands_def split: option.split)

lemma commands_on_settle:
  "commands (trace (on_settle (OnConnect cxt) k ok s)) = commands (trace s)"
  by (simp add: on_settle_def action_settled_def prim_simps commands_def
      split: option.split task.split)

lemma commands_run:
  "commands (trace (run (OnConnect cxt) s es))
   = commands (trace s) @ concat (map (sent cxt) (delivered (phase s = Connecting) es))"
proof (induction es arbitrary: s)
  case Nil
  show ?case by (simp add: run_Nil)
next
  case (Cons e es)
  let ?s = "step (OnConnect cxt) s e"
  have step: "commands (trace ?s) @ concat (map (sent cxt) (delivered (phase ?s = Connecting) es))
      = commands (trace s) @ concat (map (sent cxt) (delivered (phase s = Connecting) (e # es)))"
  proof (cases e)
    case (ConnectResolved ds)
    then show ?thesis
      by (simp add: phase_step prim_simps phase_announce commands_announce commands_append)
        (simp add: commands_def)
  next
    case (ConnectRejected err)
    then show ?thesis
      by (simp add: phase_step prim_simps commands_append) (simp add: commands_def)
  next
    case (DeviceAdded d)
    then show ?thesis
      using phase_step [of cxt s e] by (simp add: on_deviceadded_def commands_deviceadded)
  next
    case (Elapse d)
    then show ?thesis using phase_step [of cxt s e] by simp
  next
    case ScanningFinished
    then show ?thesis
      using phase_step [of cxt s e] by (simp add: prim_simps commands_append) (simp add: commands_def)
  next
    case (Settle k ok)
    then show ?thesis using phase_step [of cxt s e] by (simp add: commands_on_settle)
  next
    case (TimerFire i)
    then show ?thesis using phase_step [of cxt s e] by (simp add: commands_fire)
  next
    case (Click l)
    then show ?thesis using phase_step [of cxt s e] by (simp add: on_click_def)
  qed
  show ?case
    using Cons.IH [of ?s] step by (simp add: run_Cons)
qed

lemma length_sent: "length (sent cxt device) \<le> 1"
  by (simp add: sent_def split: option.split)

lemma length_sent_all: "length (concat (map (sent cxt) ds)) \<le> length ds"
proof (induction ds)
  case Nil
  show ?case by simp
next
  case (Cons d ds)
  then show ?case using length_sent [of cxt d] by simp
qed

lemma length_delivered: "length (delivered pending es) \<le> announced es"
  by (induction pending es rule: delivered.induct) (simp_all add: announced_def)

text \<open>
  C1, as stated, fails: there is no dispatched flag. The connection is up, two devices
  that vibrate are announced one after the other, and each is sent a vibrate command;
  no request to stop scanning has been made by then.
\<close>

theorem two_devices_two_commands:
  "messages (trace (snd (lovetownConnect localhost (vibrate_request 1 3000)
      [ConnectResolved [], DeviceAdded (vibrator 0), DeviceAdded (vibrator 1)])))
   = [Connect, StartScanning,
      Vibrate (vibrator 0) (VNumber (Num 1)), Vibrate (vibrator 1) (VNumber (Num 1))]
   \<and> \<not> length (commands (trace (snd (lovetownConnect localhost (vibrate_request 1 3000)
      [ConnectResolved [], DeviceAdded (vibrator 0), DeviceAdded (vibrator 1)])))) \<le> 1"
  by (simp add: model_defs example_defs reading_defs)

text \<open>
  C1, amended: a session sends at most as many action commands as devices were announced
  to it. Each announcement, whatever the state of the session, makes the listener send
  exactly what its guards allow for that device: one command if the device is eligible,
  none otherwise. So the commands of a session are, in order, those of the eligible
  devices announced to it, one each.
\<close>

theorem one_command_per_announcement:
  "length (commands (trace (snd (lovetownConnect h cxt es)))) \<le> announced es
   \<and> commands (trace (step (OnConnect cxt) s (DeviceAdded device)))
       = commands (trace s) @ sent cxt device
   \<and> (URL h (connectAddress cxt) \<noteq> None \<longrightarrow>
        commands (trace (snd (lovetownConnect h cxt es)))
        = concat (map (sent cxt) (delivered True es)))"
proof (intro conjI impI)
  show step: "commands (trace (step (OnConnect cxt) s (DeviceAdded device)))
       = commands (trace s) @ sent cxt device"
    by (simp add: on_deviceadded_def commands_deviceadded)
  show all: "commands (trace (snd (lovetownConnect h cxt es)))
        = concat (map (sent cxt) (delivered True es))"
    if url: "URL h (connectAddress cxt) \<noteq> None"
  proof -
    obtain a where a: "URL h (connectAddress cxt) = Some a"
      using url by auto
    have "commands (trace (connect_to a idle)) = []"
      by (simp add: trace_connect_to commands_def)
    then show ?thesis
      using a commands_run [of cxt "connect_to a idle" es]
      by (simp add: lovetownConnect_def connect_to_simps)
  qed
  show "length (commands (trace (snd (lovetownConnect h cxt es)))) \<le> announced es"
  proof (cases "URL h (connectAddress cxt)")
    case None
    then show ?thesis by (simp add: lovetownConnect_def idle_def commands_def)
  next
    case (Some a)
    then have "length (commands (trace (snd (lovetownConnect h cxt es))))
        = length (concat (map (sent cxt) (delivered True es)))"
      using all by simp
    also have "\<dots> \<le> length (delivered True es)"
      by (rule length_sent_all)
    also have "\<dots> \<le> announced es"
      by (rule length_delivered)
    finally show ?thesis .
  qed
qed

text \<open>
  C1, amended, with a vibrator known to the server, then a gamepad and a second vibrator
  found: three announcements, two commands.
\<close>

theorem one_command_per_announcement_witness:
  "URL localhost (connectAddress (vibrate_request 1 3000)) \<noteq> None
   \<and> delivered True [ConnectResolved [vibrator 0], DeviceAdded (gamepad 1), DeviceAdded (vibrator 2)]
      = [vibrator 0, gamepad 1, vibrator 2]
   \<and> commands (trace (snd (lovetownConnect localhost (vibrate_request 1 3000)
        [ConnectResolved [vibrator 0], DeviceAdded (gamepad 1), DeviceAdded (vibrator 2)])))
      = [Vibrate (vibrator 0) (VNumber (Num 1)), Vibrate (vibrator 2) (VNumber (Num 1))]
   \<and> length (commands (trace (snd (lovetownConnect localhost (vibrate_request 1 3000)
        [ConnectResolved [vibrator 0], DeviceAdded (gamepad 1), DeviceAdded (vibrator 2)])))) \<le> 3"
  using one_command_per_announcement [of localhost "vibrate_request 1 3000"
      "[ConnectResolved [vibrator 0], DeviceAdded (gamepad 1), DeviceAdded (vibrator 2)]"
      idle "vibrator 0"]
  by (simp add: model_defs example_defs reading_defs sent_def)

subsection \<open>What a session can send\<close>

text \<open>Every call a session of \<^verbatim>\<open>lovetownConnect(cxt)\<close> makes is one its listeners can make.\<close>

lemma sendable_deviceadded:
  "list_all (sendable cxt) (map snd (trace s)) \<Longrightarrow>
   list_all (sendable cxt) (map snd (trace (deviceadded cxt device s)))"
  by (auto simp add: deviceadded_def prim_simps split: option.split)

lemma sendable_announce:
  "list_all (sendable cxt) (map snd (trace s)) \<Longrightarrow>
   list_all (sendable cxt) (map snd (trace (announce (OnConnect cxt) ds s)))"
  by (induction ds arbitrary: s) (simp_all add: on_deviceadded_def sendable_deviceadded)

lemma sendable_step:
  assumes "list_all (sendable cxt) (map snd (trace s))"
  shows "list_all (sendable cxt) (map snd (trace (step (OnConnect cxt) s e)))"
proof (cases e)
  case (ConnectResolved ds)
  then show ?thesis
    using assms sendable_announce [of cxt "s\<lparr>phase := Connected\<rparr>" ds] by (simp add: prim_simps)
next
  case (DeviceAdded d)
  then show ?thesis
    using assms by (simp add: on_deviceadded_def sendable_deviceadded)
next
  case (Settle k ok)
  then show ?thesis
    using assms
    by (simp add: on_settle_def action_settled_def prim_simps split: option.split task.split)
next
  case (TimerFire i)
  then show ?thesis
    using assms by (simp add: fire_def prim_simps split: option.split)
qed (use assms in \<open>simp_all add: prim_simps on_click_def\<close>)

lemma sendable_run:
  "list_all (sendable cxt) (map snd (trace s)) \<Longrightarrow>
   list_all (sendable cxt) (map snd (trace (run (OnConnect cxt) s es)))"
  by (induction es arbitrary: s) (simp_all add: run_Nil run_Cons sendable_step)

lemma sendable_session:
  "list_all (sendable cxt) (map snd (trace (snd (lovetownConnect h cxt es))))"
proof (cases "URL h (connectAddress cxt)")
  case None
  then show ?thesis by (simp add: lovetownConnect_def idle_def)
next
  case (Some a)
  have "list_all (sendable cxt) (map snd (trace (connect_to a idle)))"
    by (simp add: trace_connect_to)
  then show ?thesis
    using Some sendable_run [of cxt "connect_to a idle" es] by (simp add: lovetownConnect_def)
qed

lemma filter_empty_if:
  "list_all P xs \<Longrightarrow> (\<And>x. P x \<Longrightarrow> \<not> Q x) \<Longrightarrow> filter Q xs = []"
  by (induction xs) auto

text \<open>
  C2: when the options have no \<^verbatim>\<open>linearDuration\<close>, no linear command is ever sent,
  whatever the linear payload, the schedule and the actuators of the announced devices.
\<close>

theorem no_linear_without_duration:
  assumes "linearDuration cxt = None"
  shows "filter is_linear (map snd (trace (snd (lovetownConnect h cxt es)))) = []"
proof (rule filter_empty_if [OF sendable_session])
  fix a
  assume "sendable cxt a"
  with assms show "\<not> is_linear a" by (cases a) simp_all
qed

text \<open>
  C2 at a linear request without duration: two devices with a linear actuator are
  announced, and each announcement only leads to the request to stop scanning.
\<close>

theorem no_linear_without_duration_witness:
  "linearDuration \<lparr>connectAddress = ''ws://localhost:12345/buttplug'', timeout = Num 2000,
       vibrate = None, linear_opt = Some (LArray [(Num 0.5, Num 0), (Num 1, Num 500)]),
       linearDuration = None\<rparr> = None
   \<and> filter is_linear (map snd (trace (snd (lovetownConnect localhost
      \<lparr>connectAddress = ''ws://localhost:12345/buttplug'', timeout = Num 2000, vibrate = None,
       linear_opt = Some (LArray [(Num 0.5, Num 0), (Num 1, Num 500)]), linearDuration = None\<rparr>
      [ConnectResolved [stroker 0], DeviceAdded (stroker 1)])))) = []
   \<and> messages (trace (snd (lovetownConnect localhost
      \<lparr>connectAddress = ''ws://localhost:12345/buttplug'', timeout = Num 2000, vibrate = None,
       linear_opt = Some (LArray [(Num 0.5, Num 0), (Num 1, Num 500)]), linearDuration = None\<rparr>
      [ConnectResolved [stroker 0], DeviceAdded (stroker 1)])))
     = [Connect, StopScanning, StartScanning, StopScanning]"
  using no_linear_without_duration [of
      "\<lparr>connectAddress = ''ws://localhost:12345/buttplug'', timeout = Num 2000, vibrate = None,
       linear_opt = Some (LArray [(Num 0.5, Num 0), (Num 1, Num 500)]), linearDuration = None\<rparr>"
      localhost "[ConnectResolved [stroker 0], DeviceAdded (stroker 1)]"]
  by (simp add: model_defs example_defs reading_defs)

subsection \<open>Devices without a vibration actuator\<close>





subsection \<open>A malformed address\<close>

text \<open>
  C4: when the host's URL parser rejects the address, \<^verbatim>\<open>lovetownConnect\<close> and
  \<^verbatim>\<open>lovetownRuntime\<close> throw with the session untouched: the trace is empty (no
  connector, no connect, no scanning, no command), no timer is set and nothing is pending,
  whatever the environment does afterwards.
\<close>

theorem malformed_address_aborts:
  assumes "URL h address = None"
  shows "lovetownConnect h (cxt\<lparr>connectAddress := address\<rparr>) es = (Some TypeError, idle)
         \<and> lovetownRuntime h address es = (Some TypeError, idle)
         \<and> trace idle = [] \<and> timers idle = [] \<and> tasks idle = [] \<and> phase idle = Idle"
  using assms by (simp add: lovetownConnect_def lovetownRuntime_def idle_def)

text \<open>C4 at an address that is not a URI.\<close>

theorem malformed_address_aborts_witness:
  "URL localhost ''localhost 12345'' = None
   \<and> lovetownConnect localhost ((vibrate_request 1 3000)\<lparr>connectAddress := ''localhost 12345''\<rparr>)
        [ConnectResolved [vibrator 0], DeviceAdded (vibrator 1), Elapse 3000, TimerFire 0]
      = (Some TypeError, idle)
   \<and> lovetownRuntime localhost ''localhost 12345''
        [ConnectResolved [vibrator 0], DeviceAdded (vibrator 1), Click 0] = (Some TypeError, idle)
   \<and> trace idle = []"
  using malformed_address_aborts [of localhost "''localhost 12345''" "vibrate_request 1 3000"
      "[ConnectResolved [vibrator 0], DeviceAdded (vibrator 1), Elapse 3000, TimerFire 0]"]
    malformed_address_aborts [of localhost "''localhost 12345''" "vibrate_request 1 3000"
      "[ConnectResolved [vibrator 0], DeviceAdded (vibrator 1), Click 0]"]
  by (simp add: localhost_def)


subsection \<open>A connection that fails\<close>













subsection \<open>A command that fails\<close>

text \<open>
  C6, as stated, fails: the vibrate command is rejected, and the session has written
  nothing to the console; the listener has no \<^verbatim>\<open>try\<close> around the \<^verbatim>\<open>await\<close>.
\<close>

theorem failed_submission_not_logged:
  "trace (snd (lovetownConnect localhost (vibrate_request 1 3000)
      [ConnectResolved [], DeviceAdded (vibrator 0), Settle 0 False]))
   = [(0, NewConnector ''ws://localhost:12345/buttplug''), (0, Connect), (0, StartScanning),
      (0, Vibrate (vibrator 0) (VNumber (Num 1)))]
   \<and> logs (trace (snd (lovetownConnect localhost (vibrate_request 1 3000)
      [ConnectResolved [], DeviceAdded (vibrator 0), Settle 0 False]))) = []"
  by (simp add: model_defs example_defs reading_defs)

lemma map_of_filter_other:
  "j \<noteq> k \<Longrightarrow> map_of (filter (\<lambda>(i, x). i \<noteq> k) xs) j = map_of xs j"
  by (induction xs) auto

lemma map_of_filter_same:
  "map_of (filter (\<lambda>(i, x). i \<noteq> k) xs) k = None"
  by (induction xs) auto

text \<open>
  C6, amended: when the awaited action command rejects, the listener invocation ends
  there. The trace is unchanged (nothing is logged, no timer is set, scanning is not asked
  to stop, the command is not sent again), the timers and all other suspended invocations
  are as they were, and the failed invocation is gone: settling it again does nothing.
\<close>

theorem failed_submission_ends_listener:
  assumes "map_of (tasks s) k = Some (AwaitAction device)"
  shows "step (OnConnect cxt) s (Settle k False) = finish k s
         \<and> trace (finish k s) = trace s \<and> timers (finish k s) = timers s
         \<and> phase (finish k s) = phase s \<and> now (finish k s) = now s
         \<and> map_of (tasks (finish k s)) k = None
         \<and> (\<forall>j. j \<noteq> k \<longrightarrow> map_of (tasks (finish k s)) j = map_of (tasks s) j)
         \<and> step (OnConnect cxt) (finish k s) (Settle k ok) = finish k s"
  using assms
  by (simp add: on_settle_def action_settled_def finish_simps map_of_filter_other map_of_filter_same)

text \<open>
  C6, amended, with two vibrators known to the server: the command to the first is
  rejected, the one to the second resolves and gets its timer.
\<close>

theorem failed_submission_ends_listener_witness:
  "map_of (tasks (snd (lovetownConnect localhost (vibrate_request 1 3000)
      [ConnectResolved [vibrator 0, vibrator 1]]))) 0 = Some (AwaitAction (vibrator 0))
   \<and> trace (step (OnConnect (vibrate_request 1 3000))
        (snd (lovetownConnect localhost (vibrate_request 1 3000)
           [ConnectResolved [vibrator 0, vibrator 1]])) (Settle 0 False))
      = trace (snd (lovetownConnect localhost (vibrate_request 1 3000)
           [ConnectResolved [vibrator 0, vibrator 1]]))
   \<and> map snd (trace (snd (lovetownConnect localhost (vibrate_request 1 3000)
        [ConnectResolved [vibrator 0, vibrator 1], Settle 0 False, Settle 1 True])))
      = [NewConnector ''ws://localhost:12345/buttplug'', Connect,
         Vibrate (vibrator 0) (VNumber (Num 1)), Vibrate (vibrator 1) (VNumber (Num 1)),
         StartScanning, SetTimeout (vibrator 1) (Num 3000), StopScanning]"
  using failed_submission_ends_listener [of
      "snd (lovetownConnect localhost (vibrate_request 1 3000) [ConnectResolved [vibrator 0, vibrator 1]])"
      0 "vibrator 0" "vibrate_request 1 3000" True]
  by (simp add: model_defs example_defs)

subsection \<open>The stop timer\<close>




























subsection \<open>One vibrator\<close>



subsection \<open>The positional entry point\<close>

text \<open>
  C9: \<^verbatim>\<open>lovetownSend\<close> with positional arguments is \<^verbatim>\<open>lovetownConnect\<close> with the
  options object of the same fields: the same outcome and the same session under every
  schedule.
\<close>

theorem lovetownSend_forwards:
  "lovetownSend h connectAddress' timeout' vibrate' linear' linearDuration' es
   = lovetownConnect h
       \<lparr>connectAddress = connectAddress', timeout = timeout',
        vibrate = map_option VNumber vibrate', linear_opt = linear',
        linearDuration = linearDuration'\<rparr> es"
  by (simp add: lovetownSend_def)

text \<open>C9 at the call \<^verbatim>\<open>lovetownSend("ws://localhost:12345/buttplug", 3000, 1.0)\<close>.\<close>

theorem lovetownSend_forwards_witness:
  "lovetownSend localhost ''ws://localhost:12345/buttplug'' (Num 3000) (Some (Num 1)) None None
      [ConnectResolved [], DeviceAdded (vibrator 0), Settle 0 True, Elapse 3000, TimerFire 1]
   = lovetownConnect localhost (vibrate_request 1 3000)
      [ConnectResolved [], DeviceAdded (vibrator 0), Settle 0 True, Elapse 3000, TimerFire 1]
   \<and> messages (trace (snd (lovetownSend localhost ''ws://localhost:12345/buttplug'' (Num 3000)
        (Some (Num 1)) None None
        [ConnectResolved [], DeviceAdded (vibrator 0), Settle 0 True, Elapse 3000, TimerFire 1])))
      = [Connect, StartScanning, Vibrate (vibrator 0) (VNumber (Num 1)), StopScanning,
         Stop (vibrator 0)]"
  using lovetownSend_forwards [of localhost "''ws://localhost:12345/buttplug''" "Num 3000"
      "Some (Num 1)" None None
      "[ConnectResolved [], DeviceAdded (vibrator 0), Settle 0 True, Elapse 3000, TimerFire 1]"]
  by (simp add: model_defs example_defs reading_defs)

subsection \<open>A vibration payload of zero\<close>

text \<open>A falsy \<^verbatim>\<open>cxt.vibrate\<close> is treated exactly as a missing one.\<close>

lemma deviceadded_falsy_vibrate:
  assumes "truthy truthy_vibrate (vibrate cxt) = None"
  shows "deviceadded cxt device s = deviceadded (cxt\<lparr>vibrate := None\<rparr>) device s"
  using assms by (simp add: deviceadded_def)

lemma announce_falsy_vibrate:
  assumes "truthy truthy_vibrate (vibrate cxt) = None"
  shows "announce (OnConnect cxt) ds s = announce (OnConnect (cxt\<lparr>vibrate := None\<rparr>)) ds s"
  by (induction ds arbitrary: s) (simp_all add: on_deviceadded_def deviceadded_falsy_vibrate [OF assms])

lemma step_falsy_vibrate:
  assumes "truthy truthy_vibrate (vibrate cxt) = None"
  shows "step (OnConnect cxt) s e = step (OnConnect (cxt\<lparr>vibrate := None\<rparr>)) s e"
proof (cases e)
  case (ConnectResolved ds)
  then show ?thesis by (simp add: announce_falsy_vibrate [OF assms])
next
  case (DeviceAdded d)
  then show ?thesis by (simp add: on_deviceadded_def deviceadded_falsy_vibrate [OF assms])
next
  case (Settle k ok)
  then show ?thesis
    by (simp add: on_settle_def action_settled_def split: option.split task.split)
qed (simp_all add: on_click_def)

lemma run_falsy_vibrate:
  assumes "truthy truthy_vibrate (vibrate cxt) = None"
  shows "run (OnConnect cxt) s es = run (OnConnect (cxt\<lparr>vibrate := None\<rparr>)) s es"
  by (induction es arbitrary: s) (simp_all add: run_Nil run_Cons step_falsy_vibrate [OF assms])

text \<open>
  C10: with \<^verbatim>\<open>vibrate: 0\<close> no vibrate command is ever sent; the session is the one of
  the same options without \<^verbatim>\<open>vibrate\<close>, and the \<^verbatim>\<open>deviceadded\<close> listener is its
  linear branch.
\<close>

theorem zero_vibrate_falls_through:
  assumes "vibrate cxt = Some (VNumber (Num 0))"
  shows "filter is_vibrate (map snd (trace (snd (lovetownConnect h cxt es)))) = []
         \<and> lovetownConnect h cxt es = lovetownConnect h (cxt\<lparr>vibrate := None\<rparr>) es
         \<and> deviceadded cxt device s =
             (case (truthy truthy_linear (linear_opt cxt), truthy truthy_number (linearDuration cxt)) of
                (Some l, Some d) \<Rightarrow>
                  if length (linearAttributes device) > 0
                  then suspend (AwaitAction device) (emit (Linear device l d) s)
                  else emit StopScanning s
              | _ \<Rightarrow> emit StopScanning s)"
proof (intro conjI)
  have falsy: "truthy truthy_vibrate (vibrate cxt) = None"
    using assms by simp
  show "filter is_vibrate (map snd (trace (snd (lovetownConnect h cxt es)))) = []"
  proof (rule filter_empty_if [OF sendable_session])
    fix a
    assume "sendable cxt a"
    with falsy show "\<not> is_vibrate a" by (cases a) simp_all
  qed
  show "lovetownConnect h cxt es = lovetownConnect h (cxt\<lparr>vibrate := None\<rparr>) es"
    by (simp add: lovetownConnect_def run_falsy_vibrate [OF falsy] split: option.split)
  show "deviceadded cxt device s =
             (case (truthy truthy_linear (linear_opt cxt), truthy truthy_number (linearDuration cxt)) of
                (Some l, Some d) \<Rightarrow>
                  if length (linearAttributes device) > 0
                  then suspend (AwaitAction device) (emit (Linear device l d) s)
                  else emit StopScanning s
              | _ \<Rightarrow> emit StopScanning s)"
    using falsy by (simp add: deviceadded_def)
qed

text \<open>
  C10 at \<^verbatim>\<open>{vibrate: 0, linear: 0.5, linearDuration: 1000}\<close>: the vibrator gets
  nothing, the device with a linear actuator gets the linear command.
\<close>

theorem zero_vibrate_falls_through_witness:
  "vibrate \<lparr>connectAddress = ''ws://localhost:12345/buttplug'', timeout = Num 2000,
       vibrate = Some (VNumber (Num 0)), linear_opt = Some (LNumber (Num 0.5)),
       linearDuration = Some (Num 1000)\<rparr> = Some (VNumber (Num 0))
   \<and> filter is_vibrate (map snd (trace (snd (lovetownConnect localhost
        \<lparr>connectAddress = ''ws://localhost:12345/buttplug'', timeout = Num 2000,
         vibrate = Some (VNumber (Num 0)), linear_opt = Some (LNumber (Num 0.5)),
         linearDuration = Some (Num 1000)\<rparr>
        [ConnectResolved [], DeviceAdded (vibrator 0), DeviceAdded (stroker 1)])))) = []
   \<and> messages (trace (snd (lovetownConnect localhost
        \<lparr>connectAddress = ''ws://localhost:12345/buttplug'', timeout = Num 2000,
         vibrate = Some (VNumber (Num 0)), linear_opt = Some (LNumber (Num 0.5)),
         linearDuration = Some (Num 1000)\<rparr>
        [ConnectResolved [], DeviceAdded (vibrator 0), DeviceAdded (stroker 1)])))
      = [Connect, StartScanning, StopScanning, Linear (stroker 1) (LNumber (Num 0.5)) (Num 1000)]"
  using zero_vibrate_falls_through [of
      "\<lparr>connectAddress = ''ws://localhost:12345/buttplug'', timeout = Num 2000,
         vibrate = Some (VNumber (Num 0)), linear_opt = Some (LNumber (Num 0.5)),
         linearDuration = Some (Num 1000)\<rparr>" localhost
      "[ConnectResolved [], DeviceAdded (vibrator 0), DeviceAdded (stroker 1)]"]
  by (simp add: model_defs example_defs reading_defs)

end
